theory Spec2Isabelle
  imports Complex_Main
begin

section \<open>The ledger of \<^verbatim>\<open>trading_system.py\<close>\<close>

text \<open>
  The program keeps its state in six SQLite tables and changes it through the methods of
  \<^verbatim>\<open>StockTradingSystem\<close>. A table is modelled as the list of its rows in insertion
  order, a row as a record of its columns. \<^verbatim>\<open>INTEGER\<close> columns and Python integers are
  \<open>int\<close>; \<^verbatim>\<open>REAL\<close> columns and Python floats are idealised as \<open>real\<close>, so rounding is
  not part of the model. Timestamps and the autoincrement row numbers are left out: no
  method below reads them. Every \<^verbatim>\<open>uuid.uuid4()\<close> and every \<^verbatim>\<open>random.uniform\<close> draw
  of the source is an argument of the modelled method.
\<close>

subsection \<open>Tables\<close>

type_synonym uuid = string

record user_row =
  u_id :: uuid
  u_username :: string
  u_balance :: real
  u_loan_amount :: real
  u_max_loan :: real

record stock_row =
  s_id :: uuid
  s_symbol :: string
  s_name :: string
  s_current_price :: real
  s_available_quantity :: int

record price_row =
  ph_stock_id :: uuid
  ph_price :: real

record portfolio_row =
  up_user_id :: uuid
  up_stock_id :: uuid
  up_quantity :: int
  up_avg_buy_price :: real

datatype transaction_type = BUY | SELL

record transaction_row =
  t_id :: uuid
  t_user_id :: uuid
  t_stock_id :: uuid
  t_transaction_type :: transaction_type
  t_quantity :: int
  t_price :: real
  t_total_amount :: real

record loan_row =
  l_id :: uuid
  l_user_id :: uuid
  l_amount :: real
  l_interest_rate :: real

record database =
  users :: "user_row list"
  stocks :: "stock_row list"
  stock_price_history :: "price_row list"
  user_portfolios :: "portfolio_row list"
  transactions :: "transaction_row list"
  loans :: "loan_row list"

text \<open>\<^verbatim>\<open>init_database\<close> on a new file: six empty tables.\<close>

definition init_database :: database where
  "init_database = \<lparr>users = [], stocks = [], stock_price_history = [],
     user_portfolios = [], transactions = [], loans = []\<rparr>"

subsection \<open>Results\<close>

text \<open>
  The exceptions that the modelled statements can raise: a violated \<^verbatim>\<open>PRIMARY KEY\<close> or
  \<^verbatim>\<open>UNIQUE\<close> constraint, the division by a zero quantity in \<^verbatim>\<open>buy_stock\<close>, and the
  subscript of \<^verbatim>\<open>None\<close> in \<^verbatim>\<open>sell_stock\<close>.
\<close>

datatype exn = IntegrityError | ZeroDivisionError | TypeError

text \<open>The \<^verbatim>\<open>"message"\<close> of a result with \<^verbatim>\<open>"success": False\<close>.\<close>

datatype message =
    Stock_not_found
  | Insufficient_stock_availability
  | User_not_found
  | Insufficient_balance
  | Insufficient_stocks_to_sell
  | Loan_amount_exceeds_maximum_limit real
  | Stock_symbol_already_exists
  | Exception_text exn

text \<open>
  What a method hands back: one constructor per success dictionary, \<open>Failed\<close> for
  \<^verbatim>\<open>{"success": False, "message": ...}\<close>, and \<open>Uncaught\<close> for an exception that leaves
  the method.
\<close>

datatype response =
    Stock_registered uuid
  | Loan_taken uuid real real real
  | Bought uuid string int real real real
  | Sold uuid string int real real real
  | Failed message
  | Uncaught exn

subsection \<open>SQL statements on lists of rows\<close>

definition fetchone :: "('a \<Rightarrow> bool) \<Rightarrow> 'a list \<Rightarrow> 'a option" where
  "fetchone P rows = find P rows"

definition sql_update :: "('a \<Rightarrow> bool) \<Rightarrow> ('a \<Rightarrow> 'a) \<Rightarrow> 'a list \<Rightarrow> 'a list" where
  "sql_update P f rows = map (\<lambda>r. if P r then f r else r) rows"

definition sql_delete :: "('a \<Rightarrow> bool) \<Rightarrow> 'a list \<Rightarrow> 'a list" where
  "sql_delete P rows = filter (\<lambda>r. \<not> P r) rows"

text \<open>\<^verbatim>\<open>str.upper\<close> on ASCII text.\<close>

definition upper_char :: "char \<Rightarrow> char" where
  "upper_char c =
     (case map_of (zip ''abcdefghijklmnopqrstuvwxyz'' ''ABCDEFGHIJKLMNOPQRSTUVWXYZ'') c of
        Some C \<Rightarrow> C
      | None \<Rightarrow> c)"

definition upper :: "string \<Rightarrow> string" where
  "upper s = map upper_char s"

text \<open>
  The inserts, each with the key constraints of its table: \<^verbatim>\<open>stocks.id\<close> is the primary
  key and \<^verbatim>\<open>stocks.symbol\<close> is unique; \<^verbatim>\<open>users.id\<close> is the primary key and
  \<^verbatim>\<open>users.username\<close> is unique; \<^verbatim>\<open>(user_id, stock_id)\<close> is unique in
  \<^verbatim>\<open>user_portfolios\<close>; \<^verbatim>\<open>transactions.id\<close> and \<^verbatim>\<open>loans.id\<close> are primary keys.
\<close>

definition insert_stock :: "stock_row \<Rightarrow> database \<Rightarrow> exn + database" where
  "insert_stock r db =
     (if s_id r \<in> set (map s_id (stocks db)) \<or> s_symbol r \<in> set (map s_symbol (stocks db))
      then Inl IntegrityError
      else Inr (db\<lparr>stocks := stocks db @ [r]\<rparr>))"

definition insert_price :: "price_row \<Rightarrow> database \<Rightarrow> database" where
  "insert_price r db = db\<lparr>stock_price_history := stock_price_history db @ [r]\<rparr>"

definition insert_user :: "user_row \<Rightarrow> database \<Rightarrow> exn + database" where
  "insert_user r db =
     (if u_id r \<in> set (map u_id (users db)) \<or> u_username r \<in> set (map u_username (users db))
      then Inl IntegrityError
      else Inr (db\<lparr>users := users db @ [r]\<rparr>))"

definition insert_portfolio :: "portfolio_row \<Rightarrow> database \<Rightarrow> exn + database" where
  "insert_portfolio r db =
     (if (up_user_id r, up_stock_id r) \<in>
           set (map (\<lambda>p. (up_user_id p, up_stock_id p)) (user_portfolios db))
      then Inl IntegrityError
      else Inr (db\<lparr>user_portfolios := user_portfolios db @ [r]\<rparr>))"

definition insert_transaction :: "transaction_row \<Rightarrow> database \<Rightarrow> exn + database" where
  "insert_transaction r db =
     (if t_id r \<in> set (map t_id (transactions db)) then Inl IntegrityError
      else Inr (db\<lparr>transactions := transactions db @ [r]\<rparr>))"

definition insert_loan :: "loan_row \<Rightarrow> database \<Rightarrow> exn + database" where
  "insert_loan r db =
     (if l_id r \<in> set (map l_id (loans db)) then Inl IntegrityError
      else Inr (db\<lparr>loans := loans db @ [r]\<rparr>))"

subsection \<open>\<^verbatim>\<open>register_stock\<close>\<close>

text \<open>
  The first argument is the \<^verbatim>\<open>uuid4\<close> drawn for \<^verbatim>\<open>stock_id\<close>. The price is clamped
  before both inserts; an \<^verbatim>\<open>IntegrityError\<close> is caught and nothing is committed.
\<close>

definition register_stock ::
  "uuid \<Rightarrow> string \<Rightarrow> string \<Rightarrow> real \<Rightarrow> int \<Rightarrow> database \<Rightarrow> database \<times> response" where
  "register_stock stock_id symbol name price quantity db =
     (let price' = max 1 (min 100 price) in
      case insert_stock \<lparr>s_id = stock_id, s_symbol = upper symbol, s_name = name,
                          s_current_price = price', s_available_quantity = quantity\<rparr> db of
        Inl e \<Rightarrow> (db, Failed Stock_symbol_already_exists)
      | Inr db1 \<Rightarrow>
          (insert_price \<lparr>ph_stock_id = stock_id, ph_price = price'\<rparr> db1,
           Stock_registered stock_id))"

subsection \<open>\<^verbatim>\<open>setup_initial_data\<close>\<close>

definition sample_stocks :: "(string \<times> string \<times> real \<times> int) list" where
  "sample_stocks =
     [(''AAPL'', ''Apple Inc.'', 150, 1000),
      (''GOOGL'', ''Alphabet Inc.'', 80, 800),
      (''MSFT'', ''Microsoft Corp.'', 90, 900),
      (''TSLA'', ''Tesla Inc.'', 75, 600),
      (''AMZN'', ''Amazon.com Inc.'', 85, 700)]"

text \<open>The names \<^verbatim>\<open>f"user_{i+1}"\<close> for \<^verbatim>\<open>i in range(10)\<close>.\<close>

definition test_usernames :: "string list" where
  "test_usernames =
     [''user_1'', ''user_2'', ''user_3'', ''user_4'', ''user_5'',
      ''user_6'', ''user_7'', ''user_8'', ''user_9'', ''user_10'']"

text \<open>
  The two loops. \<open>new_id i\<close> is the \<^verbatim>\<open>uuid4\<close> drawn in round \<open>i\<close>. The sample prices are
  inserted as they stand: this path has no clamp. A new user gets the column defaults
  \<^verbatim>\<open>loan_amount = 0.0\<close> and \<^verbatim>\<open>max_loan = 100000.0\<close>.
\<close>

fun add_sample_stocks ::
  "(nat \<Rightarrow> uuid) \<Rightarrow> nat \<Rightarrow> (string \<times> string \<times> real \<times> int) list \<Rightarrow> database \<Rightarrow> exn + database" where
  "add_sample_stocks new_id i [] db = Inr db"
| "add_sample_stocks new_id i ((symbol, name, price, quantity) # rest) db =
     (case insert_stock \<lparr>s_id = new_id i, s_symbol = symbol, s_name = name,
                          s_current_price = price, s_available_quantity = quantity\<rparr> db of
        Inl e \<Rightarrow> Inl e
      | Inr db1 \<Rightarrow>
          add_sample_stocks new_id (Suc i) rest
            (insert_price \<lparr>ph_stock_id = new_id i, ph_price = price\<rparr> db1))"

fun add_test_users :: "(nat \<Rightarrow> uuid) \<Rightarrow> nat \<Rightarrow> string list \<Rightarrow> database \<Rightarrow> exn + database" where
  "add_test_users new_id i [] db = Inr db"
| "add_test_users new_id i (username # rest) db =
     (case insert_user \<lparr>u_id = new_id i, u_username = username, u_balance = 10000,
                         u_loan_amount = 0, u_max_loan = 100000\<rparr> db of
        Inl e \<Rightarrow> Inl e
      | Inr db1 \<Rightarrow> add_test_users new_id (Suc i) rest db1)"

definition setup_initial_data :: "(nat \<Rightarrow> uuid) \<Rightarrow> (nat \<Rightarrow> uuid) \<Rightarrow> database \<Rightarrow> exn + database" where
  "setup_initial_data new_stock_id new_user_id db =
     (case (if length (stocks db) = 0 then add_sample_stocks new_stock_id 0 sample_stocks db
            else Inr db) of
        Inl e \<Rightarrow> Inl e
      | Inr db1 \<Rightarrow>
          (if length (users db1) = 0 then add_test_users new_user_id 0 test_usernames db1
           else Inr db1))"

subsection \<open>\<^verbatim>\<open>update_stock_prices\<close>\<close>

text \<open>
  One round over the rows fetched at the start; \<open>change_percent i\<close> is the value that
  \<^verbatim>\<open>random.uniform(-0.1, 0.1)\<close> returns for the \<open>i\<close>-th of them.
\<close>

fun update_prices_loop :: "(nat \<Rightarrow> real) \<Rightarrow> nat \<Rightarrow> stock_row list \<Rightarrow> database \<Rightarrow> database" where
  "update_prices_loop change_percent i [] db = db"
| "update_prices_loop change_percent i (stock # rest) db =
     (let stock_id = s_id stock;
          current_price = s_current_price stock;
          new_price = current_price * (1 + change_percent i);
          new_price = max 1 (min 100 new_price);
          db1 = db\<lparr>stocks := sql_update (\<lambda>r. s_id r = stock_id)
                                 (\<lambda>r. r\<lparr>s_current_price := new_price\<rparr>) (stocks db)\<rparr>;
          db2 = insert_price \<lparr>ph_stock_id = stock_id, ph_price = new_price\<rparr> db1
      in update_prices_loop change_percent (Suc i) rest db2)"

definition update_stock_prices :: "(nat \<Rightarrow> real) \<Rightarrow> database \<Rightarrow> database" where
  "update_stock_prices change_percent db = update_prices_loop change_percent 0 (stocks db) db"

subsection \<open>\<^verbatim>\<open>take_loan\<close>\<close>

text \<open>
  The method has no \<^verbatim>\<open>try\<close>: an \<^verbatim>\<open>IntegrityError\<close> of the insert leaves it with nothing
  committed. The new loan row takes the column default \<^verbatim>\<open>interest_rate = 0.05\<close>.
\<close>

definition take_loan :: "uuid \<Rightarrow> uuid \<Rightarrow> real \<Rightarrow> database \<Rightarrow> database \<times> response" where
  "take_loan loan_id user_id amount db =
     (case fetchone (\<lambda>u. u_id u = user_id) (users db) of
        None \<Rightarrow> (db, Failed User_not_found)
      | Some user \<Rightarrow>
          (let current_loan = u_loan_amount user;
               max_loan = u_max_loan user
           in if current_loan + amount > max_loan
              then (db, Failed (Loan_amount_exceeds_maximum_limit max_loan))
              else
                (let new_balance = u_balance user + amount;
                     new_loan_amount = current_loan + amount
                 in case insert_loan \<lparr>l_id = loan_id, l_user_id = user_id, l_amount = amount,
                                       l_interest_rate = 5 / 100\<rparr> db of
                      Inl e \<Rightarrow> (db, Uncaught e)
                    | Inr db1 \<Rightarrow>
                        (db1\<lparr>users := sql_update (\<lambda>u. u_id u = user_id)
                            (\<lambda>u. u\<lparr>u_balance := new_balance, u_loan_amount := new_loan_amount\<rparr>)
                            (users db1)\<rparr>,
                         Loan_taken loan_id amount new_balance new_loan_amount))))"

subsection \<open>\<^verbatim>\<open>buy_stock\<close>\<close>

text \<open>
  The portfolio step of \<^verbatim>\<open>buy_stock\<close>: an existing position is re-averaged, and Python
  raises \<^verbatim>\<open>ZeroDivisionError\<close> when the new quantity is zero; otherwise a position is
  created at the fill price.
\<close>

definition buy_portfolio :: "uuid \<Rightarrow> uuid \<Rightarrow> int \<Rightarrow> real \<Rightarrow> database \<Rightarrow> exn + database" where
  "buy_portfolio user_id stock_id quantity price db =
     (case fetchone (\<lambda>p. up_user_id p = user_id \<and> up_stock_id p = stock_id)
             (user_portfolios db) of
        Some portfolio \<Rightarrow>
          (let old_qty = up_quantity portfolio;
               old_avg = up_avg_buy_price portfolio;
               new_qty = old_qty + quantity
           in if new_qty = 0 then Inl ZeroDivisionError
              else
                (let new_avg = ((of_int old_qty * old_avg) + (of_int quantity * price))
                                 / of_int new_qty
                 in Inr (db\<lparr>user_portfolios :=
                      sql_update (\<lambda>p. up_user_id p = user_id \<and> up_stock_id p = stock_id)
                        (\<lambda>p. p\<lparr>up_quantity := new_qty, up_avg_buy_price := new_avg\<rparr>)
                        (user_portfolios db)\<rparr>)))
      | None \<Rightarrow>
          insert_portfolio \<lparr>up_user_id = user_id, up_stock_id = stock_id,
                            up_quantity = quantity, up_avg_buy_price = price\<rparr> db)"

text \<open>
  The first argument is the \<^verbatim>\<open>uuid4\<close> drawn for \<^verbatim>\<open>transaction_id\<close>. Any exception
  inside the \<^verbatim>\<open>try\<close> is caught, the connection rolls back to the database the call
  started from, and the text of the exception is the message.
\<close>

definition buy_stock :: "uuid \<Rightarrow> uuid \<Rightarrow> string \<Rightarrow> int \<Rightarrow> database \<Rightarrow> database \<times> response" where
  "buy_stock transaction_id user_id symbol quantity db =
     (case fetchone (\<lambda>s. s_symbol s = upper symbol) (stocks db) of
        None \<Rightarrow> (db, Failed Stock_not_found)
      | Some stock \<Rightarrow>
          (let stock_id = s_id stock;
               price = s_current_price stock;
               available = s_available_quantity stock
           in if quantity > available then (db, Failed Insufficient_stock_availability)
              else
                (case fetchone (\<lambda>u. u_id u = user_id) (users db) of
                   None \<Rightarrow> (db, Failed User_not_found)
                 | Some user \<Rightarrow>
                     (let total_cost = price * of_int quantity
                      in if u_balance user < total_cost then (db, Failed Insufficient_balance)
                         else
                           (let new_balance = u_balance user - total_cost;
                                new_available = available - quantity;
                                db1 = db\<lparr>users := sql_update (\<lambda>u. u_id u = user_id)
                                        (\<lambda>u. u\<lparr>u_balance := new_balance\<rparr>) (users db)\<rparr>;
                                db2 = db1\<lparr>stocks := sql_update (\<lambda>s. s_id s = stock_id)
                                        (\<lambda>s. s\<lparr>s_available_quantity := new_available\<rparr>)
                                        (stocks db1)\<rparr>
                            in case buy_portfolio user_id stock_id quantity price db2 of
                                 Inl e \<Rightarrow> (db, Failed (Exception_text e))
                               | Inr db3 \<Rightarrow>
                                   (case insert_transaction
                                           \<lparr>t_id = transaction_id, t_user_id = user_id,
                                            t_stock_id = stock_id, t_transaction_type = BUY,
                                            t_quantity = quantity, t_price = price,
                                            t_total_amount = total_cost\<rparr> db3 of
                                      Inl e \<Rightarrow> (db, Failed (Exception_text e))
                                    | Inr db4 \<Rightarrow>
                                        (db4, Bought transaction_id (upper symbol) quantity
                                                price total_cost new_balance)))))))"

subsection \<open>\<^verbatim>\<open>sell_stock\<close>\<close>

text \<open>
  The user row is fetched after the position check and is subscripted without a test:
  when it is \<^verbatim>\<open>None\<close> the \<^verbatim>\<open>TypeError\<close> is caught like any other exception.
\<close>

definition sell_stock :: "uuid \<Rightarrow> uuid \<Rightarrow> string \<Rightarrow> int \<Rightarrow> database \<Rightarrow> database \<times> response" where
  "sell_stock transaction_id user_id symbol quantity db =
     (case fetchone (\<lambda>s. s_symbol s = upper symbol) (stocks db) of
        None \<Rightarrow> (db, Failed Stock_not_found)
      | Some stock \<Rightarrow>
          (let stock_id = s_id stock;
               price = s_current_price stock;
               available = s_available_quantity stock
           in case fetchone (\<lambda>p. up_user_id p = user_id \<and> up_stock_id p = stock_id)
                     (user_portfolios db) of
                None \<Rightarrow> (db, Failed Insufficient_stocks_to_sell)
              | Some portfolio \<Rightarrow>
                  (if up_quantity portfolio < quantity
                   then (db, Failed Insufficient_stocks_to_sell)
                   else
                     (case fetchone (\<lambda>u. u_id u = user_id) (users db) of
                        None \<Rightarrow> (db, Failed (Exception_text TypeError))
                      | Some user \<Rightarrow>
                          (let total_earnings = price * of_int quantity;
                               new_balance = u_balance user + total_earnings;
                               new_portfolio_qty = up_quantity portfolio - quantity;
                               new_available = available + quantity;
                               db1 = db\<lparr>users := sql_update (\<lambda>u. u_id u = user_id)
                                       (\<lambda>u. u\<lparr>u_balance := new_balance\<rparr>) (users db)\<rparr>;
                               db2 = db1\<lparr>stocks := sql_update (\<lambda>s. s_id s = stock_id)
                                       (\<lambda>s. s\<lparr>s_available_quantity := new_available\<rparr>)
                                       (stocks db1)\<rparr>;
                               db3 =
                                 (if new_portfolio_qty = 0
                                  then db2\<lparr>user_portfolios :=
                                         sql_delete (\<lambda>p. up_user_id p = user_id \<and>
                                                          up_stock_id p = stock_id)
                                           (user_portfolios db2)\<rparr>
                                  else db2\<lparr>user_portfolios :=
                                         sql_update (\<lambda>p. up_user_id p = user_id \<and>
                                                          up_stock_id p = stock_id)
                                           (\<lambda>p. p\<lparr>up_quantity := new_portfolio_qty\<rparr>)
                                           (user_portfolios db2)\<rparr>)
                           in case insert_transaction
                                     \<lparr>t_id = transaction_id, t_user_id = user_id,
                                      t_stock_id = stock_id, t_transaction_type = SELL,
                                      t_quantity = quantity, t_price = price,
                                      t_total_amount = total_earnings\<rparr> db3 of
                                Inl e \<Rightarrow> (db, Failed (Exception_text e))
                              | Inr db4 \<Rightarrow>
                                  (db4, Sold transaction_id (upper symbol) quantity price
                                          total_earnings new_balance))))))"

subsection \<open>\<^verbatim>\<open>get_stock_report\<close>\<close>

text \<open>
  The query joins every stock to its transactions and then to its price history, both
  with \<^verbatim>\<open>LEFT JOIN\<close>, and aggregates over the joined rows of each stock. A left join
  keeps a row without a match, with \<^verbatim>\<open>NULL\<close> (\<open>None\<close>) in the columns of the right
  table.
\<close>

definition left_join :: "'a list \<Rightarrow> ('a \<Rightarrow> 'b list) \<Rightarrow> ('a \<times> 'b option) list" where
  "left_join rows matches =
     concat (map (\<lambda>r. if matches r = [] then [(r, None)]
                       else map (\<lambda>m. (r, Some m)) (matches r)) rows)"

definition joined_rows ::
  "database \<Rightarrow> stock_row \<Rightarrow> ((stock_row \<times> transaction_row option) \<times> price_row option) list" where
  "joined_rows db s =
     left_join
       (left_join [s] (\<lambda>s. filter (\<lambda>t. s_id s = t_stock_id t) (transactions db)))
       (\<lambda>(s, t). filter (\<lambda>sph. s_id s = ph_stock_id sph) (stock_price_history db))"

text \<open>
  The aggregate functions skip \<^verbatim>\<open>NULL\<close>; \<^verbatim>\<open>AVG\<close>, \<^verbatim>\<open>MAX\<close> and \<^verbatim>\<open>MIN\<close> of no value
  are \<^verbatim>\<open>NULL\<close>.
\<close>

definition non_null :: "'a option list \<Rightarrow> 'a list" where
  "non_null xs = concat (map (\<lambda>x. case x of None \<Rightarrow> [] | Some v \<Rightarrow> [v]) xs)"

definition sql_count :: "'a option list \<Rightarrow> nat" where
  "sql_count xs = length (non_null xs)"

definition sql_avg :: "real option list \<Rightarrow> real option" where
  "sql_avg xs =
     (if non_null xs = [] then None
      else Some (sum_list (non_null xs) / of_nat (length (non_null xs))))"

definition sql_max :: "real option list \<Rightarrow> real option" where
  "sql_max xs = (case non_null xs of [] \<Rightarrow> None | v # vs \<Rightarrow> Some (fold max vs v))"

definition sql_min :: "real option list \<Rightarrow> real option" where
  "sql_min xs = (case non_null xs of [] \<Rightarrow> None | v # vs \<Rightarrow> Some (fold min vs v))"

record stock_report_row =
  r_symbol :: string
  r_name :: string
  r_current_price :: real
  r_available_quantity :: int
  r_transaction_count :: nat
  r_total_bought :: int
  r_total_sold :: int
  r_avg_transaction_price :: "real option"
  r_max_price :: "real option"
  r_min_price :: "real option"
  r_volatility_percent :: real

text \<open>
  \<^verbatim>\<open>CASE WHEN t.transaction_type = 'BUY' THEN t.quantity ELSE 0 END\<close>: a joined row
  without a transaction counts 0.
\<close>

definition quantity_when :: "transaction_type \<Rightarrow> transaction_row option \<Rightarrow> int" where
  "quantity_when ty t =
     (case t of None \<Rightarrow> 0
      | Some t \<Rightarrow> if t_transaction_type t = ty then t_quantity t else 0)"

text \<open>
  Python's test \<^verbatim>\<open>if stock_data['max_price'] and stock_data['min_price']\<close> fails on
  \<^verbatim>\<open>None\<close> and on \<^verbatim>\<open>0.0\<close>.
\<close>

definition volatility :: "real option \<Rightarrow> real option \<Rightarrow> real" where
  "volatility max_price min_price =
     (case (max_price, min_price) of
        (Some mx, Some mn) \<Rightarrow> if mx \<noteq> 0 \<and> mn \<noteq> 0 then ((mx - mn) / mn) * 100 else 0
      | _ \<Rightarrow> 0)"

text \<open>
  One result row per stock row: the query groups by \<^verbatim>\<open>s.id\<close>, the primary key, and the
  other columns of \<^verbatim>\<open>stocks\<close>. The rows are listed in table order; the query fixes none.
\<close>

definition stock_report :: "database \<Rightarrow> stock_row \<Rightarrow> stock_report_row" where
  "stock_report db s =
     (let rows = joined_rows db s;
          ts = map (\<lambda>((s, t), sph). t) rows;
          sphs = map (\<lambda>((s, t), sph). sph) rows;
          max_price = sql_max (map (map_option ph_price) sphs);
          min_price = sql_min (map (map_option ph_price) sphs)
      in \<lparr>r_symbol = s_symbol s, r_name = s_name s, r_current_price = s_current_price s,
          r_available_quantity = s_available_quantity s,
          r_transaction_count = sql_count (map (map_option t_id) ts),
          r_total_bought = sum_list (map (quantity_when BUY) ts),
          r_total_sold = sum_list (map (quantity_when SELL) ts),
          r_avg_transaction_price = sql_avg (map (map_option t_price) ts),
          r_max_price = max_price, r_min_price = min_price,
          r_volatility_percent = volatility max_price min_price\<rparr>)"

definition get_stock_report :: "database \<Rightarrow> stock_report_row list" where
  "get_stock_report db = map (stock_report db) (stocks db)"

subsection \<open>Sequences of calls\<close>

datatype call =
    Register_stock uuid string string real int
  | Take_loan uuid uuid real
  | Buy_stock uuid uuid string int
  | Sell_stock uuid uuid string int
  | Update_stock_prices "nat \<Rightarrow> real"

text \<open>The database after one call; a call that fails or raises has committed nothing.\<close>

fun perform :: "call \<Rightarrow> database \<Rightarrow> database" where
  "perform (Register_stock stock_id symbol name price quantity) db =
     fst (register_stock stock_id symbol name price quantity db)"
| "perform (Take_loan loan_id user_id amount) db = fst (take_loan loan_id user_id amount db)"
| "perform (Buy_stock transaction_id user_id symbol quantity) db =
     fst (buy_stock transaction_id user_id symbol quantity db)"
| "perform (Sell_stock transaction_id user_id symbol quantity) db =
     fst (sell_stock transaction_id user_id symbol quantity db)"
| "perform (Update_stock_prices change_percent) db = update_stock_prices change_percent db"

fun perform_all :: "call list \<Rightarrow> database \<Rightarrow> database" where
  "perform_all [] db = db"
| "perform_all (c # cs) db = perform_all cs (perform c db)"

subsection \<open>What the claims observe\<close>

text \<open>The position of a user in a stock, as both trading methods look it up.\<close>

definition position_of :: "database \<Rightarrow> uuid \<Rightarrow> uuid \<Rightarrow> portfolio_row option" where
  "position_of db user_id stock_id =
     fetchone (\<lambda>p. up_user_id p = user_id \<and> up_stock_id p = stock_id) (user_portfolios db)"

text \<open>The units of a stock still on offer, the units held in portfolios, and their sum.\<close>

definition available_units :: "database \<Rightarrow> uuid \<Rightarrow> int" where
  "available_units db stock_id =
     sum_list (map s_available_quantity (filter (\<lambda>s. s_id s = stock_id) (stocks db)))"

definition held_units :: "database \<Rightarrow> uuid \<Rightarrow> int" where
  "held_units db stock_id =
     sum_list (map up_quantity (filter (\<lambda>p. up_stock_id p = stock_id) (user_portfolios db)))"

definition total_units :: "database \<Rightarrow> uuid \<Rightarrow> int" where
  "total_units db stock_id = available_units db stock_id + held_units db stock_id"

text \<open>
  The constraints that the schema declares and that the claims rely on: the primary key
  of \<^verbatim>\<open>stocks\<close>, the unique pair of \<^verbatim>\<open>user_portfolios\<close>, and the foreign keys from
  \<^verbatim>\<open>user_portfolios\<close> and \<^verbatim>\<open>stock_price_history\<close> to \<^verbatim>\<open>stocks\<close>.
\<close>

definition db_constraints :: "database \<Rightarrow> bool" where
  "db_constraints db \<longleftrightarrow>
     distinct (map s_id (stocks db)) \<and>
     distinct (map (\<lambda>p. (up_user_id p, up_stock_id p)) (user_portfolios db)) \<and>
     list_all (\<lambda>p. up_stock_id p \<in> set (map s_id (stocks db))) (user_portfolios db) \<and>
     list_all (\<lambda>h. ph_stock_id h \<in> set (map s_id (stocks db))) (stock_price_history db)"

subsection \<open>A database to run the methods on\<close>

text \<open>
  The database of a first start: \<^verbatim>\<open>setup_initial_data\<close> on the empty tables, with
  short stand-ins for the drawn identifiers.
\<close>

definition seed_stock_id :: "nat \<Rightarrow> uuid" where
  "seed_stock_id i = [''s0'', ''s1'', ''s2'', ''s3'', ''s4''] ! i"

definition seed_user_id :: "nat \<Rightarrow> uuid" where
  "seed_user_id i =
     [''u0'', ''u1'', ''u2'', ''u3'', ''u4'', ''u5'', ''u6'', ''u7'', ''u8'', ''u9''] ! i"

definition seeded :: database where
  "seeded =
     (case setup_initial_data seed_stock_id seed_user_id init_database of
        Inr db \<Rightarrow> db
      | Inl e \<Rightarrow> init_database)"

text \<open>
  The seeded database after user \<open>u0\<close> has bought three units of GOOGL and one price
  round has run with every draw at \<open>0\<close>.
\<close>

definition traded :: database where
  "traded = update_stock_prices (\<lambda>i. 0) (fst (buy_stock ''t1'' ''u0'' ''GOOGL'' 3 seeded))"

text \<open>
  The seeded database after user \<open>u0\<close> has bought ten units of GOOGL, and then after a
  price round in which every draw is \<open>1/16\<close>.
\<close>

definition after_first_buy :: database where
  "after_first_buy = fst (buy_stock ''t1'' ''u0'' ''googl'' 10 seeded)"

definition after_price_round :: database where
  "after_price_round = update_stock_prices (\<lambda>i. 1 / 16) after_first_buy"

section \<open>Evaluation\<close>

lemmas sql_defs =
  fetchone_def sql_update_def sql_delete_def insert_stock_def insert_price_def
  insert_user_def insert_portfolio_def insert_transaction_def insert_loan_def

lemmas seed_defs =
  seeded_def setup_initial_data_def init_database_def sample_stocks_def test_usernames_def
  seed_stock_id_def seed_user_id_def

lemmas method_defs =
  register_stock_def take_loan_def buy_stock_def buy_portfolio_def sell_stock_def
  upper_def upper_char_def Let_def

lemmas report_defs =
  get_stock_report_def stock_report_def joined_rows_def left_join_def non_null_def
  sql_count_def sql_avg_def sql_max_def sql_min_def quantity_when_def volatility_def

lemmas trade_defs = after_first_buy_def after_price_round_def update_stock_prices_def
  position_of_def

lemma seeded_eq: "setup_initial_data seed_stock_id seed_user_id init_database = Inr seeded"
  by (simp add: seed_defs sql_defs)

section \<open>Conservation of units\<close>

subsection \<open>Rows and sums\<close>

lemma find_update:
  "find P xs = Some r \<Longrightarrow> P (f r) \<Longrightarrow> find P (map (\<lambda>x. if P x then f x else x) xs) = Some (f r)"
  by (induction xs) (auto split: if_splits)

lemma find_append_new:
  "find P xs = None \<Longrightarrow> P r \<Longrightarrow> find P (xs @ [r]) = Some r"
  by (induction xs) (auto split: if_splits)

lemma find_key_member:
  "distinct (map key xs) \<Longrightarrow> r \<in> set xs \<Longrightarrow> find (\<lambda>x. key x = key r) xs = Some r"
  by (induction xs) (auto simp: rev_image_eqI)

lemma find_Some_member: "find P xs = Some r \<Longrightarrow> r \<in> set xs \<and> P r"
  by (induction xs) (auto split: if_splits)

lemma sum_filter_as_if:
  "sum_list (map g (filter Q xs)) = sum_list (map (\<lambda>r. if Q r then g r else (0::int)) xs)"
  by (induction xs) auto

lemma update_absent_key:
  "k \<notin> set (map key xs) \<Longrightarrow> map (\<lambda>r. if key r = k then f r else r) xs = xs"
  by (induction xs) auto

lemma delete_absent_key:
  "k \<notin> set (map key xs) \<Longrightarrow> filter (\<lambda>r. key r \<noteq> k) xs = xs"
  by (induction xs) auto

lemma sum_update_one:
  fixes g :: "'a \<Rightarrow> int"
  shows "distinct (map key xs) \<Longrightarrow> find (\<lambda>r. key r = k) xs = Some r0 \<Longrightarrow>
    sum_list (map g (map (\<lambda>r. if key r = k then f r else r) xs))
      = sum_list (map g xs) - g r0 + g (f r0)"
proof (induction xs)
  case Nil
  then show ?case by simp
next
  case (Cons x xs)
  show ?case
  proof (cases "key x = k")
    case True
    with Cons.prems have "k \<notin> set (map key xs)" and "r0 = x" by auto
    then show ?thesis using True by (simp add: update_absent_key)
  next
    case False
    with Cons show ?thesis by simp
  qed
qed

lemma sum_delete_one:
  fixes g :: "'a \<Rightarrow> int"
  shows "distinct (map key xs) \<Longrightarrow> find (\<lambda>r. key r = k) xs = Some r0 \<Longrightarrow>
    sum_list (map g (filter (\<lambda>r. key r \<noteq> k) xs)) = sum_list (map g xs) - g r0"
proof (induction xs)
  case Nil
  then show ?case by simp
next
  case (Cons x xs)
  show ?case
  proof (cases "key x = k")
    case True
    with Cons.prems have "k \<notin> set (map key xs)" and "r0 = x" by auto
    then show ?thesis using True by (simp add: delete_absent_key)
  next
    case False
    with Cons show ?thesis by simp
  qed
qed

lemma sql_update_keys:
  "(\<And>r. key (f r) = key r) \<Longrightarrow> map key (sql_update P f xs) = map key xs"
  unfolding sql_update_def by (induction xs) auto


subsection \<open>Units\<close>

lemma held_units_alt:
  "held_units db sid =
     sum_list (map (\<lambda>p. if up_stock_id p = sid then up_quantity p else 0) (user_portfolios db))"
  by (simp add: held_units_def sum_filter_as_if)

lemma available_units_alt:
  "available_units db sid =
     sum_list (map (\<lambda>s. if s_id s = sid then s_available_quantity s else 0) (stocks db))"
  by (simp add: available_units_def sum_filter_as_if)

lemma buy_portfolio_held:
  assumes "distinct (map (\<lambda>p. (up_user_id p, up_stock_id p)) (user_portfolios db))"
      and "buy_portfolio u s q price db = Inr db'"
  shows "held_units db' sid = held_units db sid + (if s = sid then q else 0)"
proof (cases "position_of db u s")
  case None
  with assms(2) show ?thesis
    by (auto simp: buy_portfolio_def position_of_def insert_portfolio_def held_units_alt
             split: if_splits)
next
  case (Some r0)
  then have f: "find (\<lambda>p. (up_user_id p, up_stock_id p) = (u, s)) (user_portfolios db) = Some r0"
    by (simp add: position_of_def fetchone_def)
  then have k: "up_stock_id r0 = s"
    using find_Some_member [OF f] by simp
  from Some assms(2) have db': "db' = db\<lparr>user_portfolios :=
      map (\<lambda>p. if (up_user_id p, up_stock_id p) = (u, s)
                then p\<lparr>up_quantity := up_quantity r0 + q,
                       up_avg_buy_price := ((of_int (up_quantity r0) * up_avg_buy_price r0)
                          + (of_int q * price)) / of_int (up_quantity r0 + q)\<rparr>
                else p) (user_portfolios db)\<rparr>"
    by (auto simp: buy_portfolio_def position_of_def sql_update_def Let_def split: if_splits)
  show ?thesis
    unfolding held_units_alt db'
    using sum_update_one [OF assms(1) f] k by simp
qed

lemma buy_portfolio_frame:
  assumes "buy_portfolio u s q price db = Inr db'"
  shows "stocks db' = stocks db" and "users db' = users db"
    and "stock_price_history db' = stock_price_history db"
    and "transactions db' = transactions db" and "loans db' = loans db"
  using assms
  by (auto simp: buy_portfolio_def insert_portfolio_def Let_def
           split: option.splits if_splits)

lemma sql_update_list_all:
  "(\<And>r. Q r \<Longrightarrow> Q (f r)) \<Longrightarrow> list_all Q xs \<Longrightarrow> list_all Q (sql_update P f xs)"
  unfolding sql_update_def by (induction xs) auto

lemma sql_delete_list_all: "list_all Q xs \<Longrightarrow> list_all Q (sql_delete P xs)"
  unfolding sql_delete_def by (induction xs) auto

lemma sql_delete_distinct: "distinct (map key xs) \<Longrightarrow> distinct (map key (sql_delete P xs))"
  unfolding sql_delete_def by (simp add: distinct_map_filter)

lemma buy_portfolio_keys:
  assumes "distinct (map (\<lambda>p. (up_user_id p, up_stock_id p)) (user_portfolios db))"
      and "list_all (\<lambda>p. up_stock_id p \<in> S) (user_portfolios db)"
      and "s \<in> S"
      and "buy_portfolio u s q price db = Inr db'"
  shows "distinct (map (\<lambda>p. (up_user_id p, up_stock_id p)) (user_portfolios db'))"
    and "list_all (\<lambda>p. up_stock_id p \<in> S) (user_portfolios db')"
  using assms
  by (auto simp: buy_portfolio_def insert_portfolio_def Let_def sql_update_keys
           intro!: sql_update_list_all split: option.splits if_splits)


subsection \<open>The two outcomes of a trade\<close>

lemma buy_stock_outcome:
  "(\<exists>m. buy_stock t u symbol q db = (db, Failed m)) \<or>
   (\<exists>stock user db3.
      fetchone (\<lambda>s. s_symbol s = upper symbol) (stocks db) = Some stock \<and>
      fetchone (\<lambda>r. u_id r = u) (users db) = Some user \<and>
      q \<le> s_available_quantity stock \<and>
      s_current_price stock * of_int q \<le> u_balance user \<and>
      buy_portfolio u (s_id stock) q (s_current_price stock)
         (db\<lparr>users := sql_update (\<lambda>r. u_id r = u)
                (\<lambda>r. r\<lparr>u_balance := u_balance user - s_current_price stock * of_int q\<rparr>)
                (users db),
             stocks := sql_update (\<lambda>s. s_id s = s_id stock)
                (\<lambda>s. s\<lparr>s_available_quantity := s_available_quantity stock - q\<rparr>)
                (stocks db)\<rparr>) = Inr db3 \<and>
      t \<notin> set (map t_id (transactions db3)) \<and>
      buy_stock t u symbol q db =
         (db3\<lparr>transactions := transactions db3 @
             [\<lparr>t_id = t, t_user_id = u, t_stock_id = s_id stock, t_transaction_type = BUY,
               t_quantity = q, t_price = s_current_price stock,
               t_total_amount = s_current_price stock * of_int q\<rparr>]\<rparr>,
          Bought t (upper symbol) q (s_current_price stock) (s_current_price stock * of_int q)
            (u_balance user - s_current_price stock * of_int q)))"
proof (cases "fetchone (\<lambda>s. s_symbol s = upper symbol) (stocks db)")
  case None
  then show ?thesis by (simp add: buy_stock_def)
next
  case stock: (Some stock)
  show ?thesis
  proof (cases "fetchone (\<lambda>r. u_id r = u) (users db)")
    case None
    with stock show ?thesis by (simp add: buy_stock_def Let_def)
  next
    case user: (Some user)
    show ?thesis
      using stock user
      by (cases "buy_portfolio u (s_id stock) q (s_current_price stock)
         (db\<lparr>users := sql_update (\<lambda>r. u_id r = u)
                (\<lambda>r. r\<lparr>u_balance := u_balance user - s_current_price stock * of_int q\<rparr>)
                (users db),
             stocks := sql_update (\<lambda>s. s_id s = s_id stock)
                (\<lambda>s. s\<lparr>s_available_quantity := s_available_quantity stock - q\<rparr>)
                (stocks db)\<rparr>)")
         (simp_all add: buy_stock_def insert_transaction_def Let_def)
  qed
qed


lemma sell_stock_outcome:
  "(\<exists>m. sell_stock t u symbol q db = (db, Failed m)) \<or>
   (\<exists>stock portfolio user.
      fetchone (\<lambda>s. s_symbol s = upper symbol) (stocks db) = Some stock \<and>
      position_of db u (s_id stock) = Some portfolio \<and>
      q \<le> up_quantity portfolio \<and>
      fetchone (\<lambda>r. u_id r = u) (users db) = Some user \<and>
      t \<notin> set (map t_id (transactions db)) \<and>
      sell_stock t u symbol q db =
        (db\<lparr>users := sql_update (\<lambda>r. u_id r = u)
               (\<lambda>r. r\<lparr>u_balance := u_balance user + s_current_price stock * of_int q\<rparr>)
               (users db),
            stocks := sql_update (\<lambda>s. s_id s = s_id stock)
               (\<lambda>s. s\<lparr>s_available_quantity := s_available_quantity stock + q\<rparr>)
               (stocks db),
            user_portfolios :=
              (if up_quantity portfolio - q = 0
               then sql_delete (\<lambda>p. up_user_id p = u \<and> up_stock_id p = s_id stock)
                      (user_portfolios db)
               else sql_update (\<lambda>p. up_user_id p = u \<and> up_stock_id p = s_id stock)
                      (\<lambda>p. p\<lparr>up_quantity := up_quantity portfolio - q\<rparr>)
                      (user_portfolios db)),
            transactions := transactions db @
              [\<lparr>t_id = t, t_user_id = u, t_stock_id = s_id stock, t_transaction_type = SELL,
                t_quantity = q, t_price = s_current_price stock,
                t_total_amount = s_current_price stock * of_int q\<rparr>]\<rparr>,
         Sold t (upper symbol) q (s_current_price stock) (s_current_price stock * of_int q)
           (u_balance user + s_current_price stock * of_int q)))"
proof (cases "fetchone (\<lambda>s. s_symbol s = upper symbol) (stocks db)")
  case None
  then show ?thesis by (simp add: sell_stock_def)
next
  case stock: (Some stock)
  show ?thesis
  proof (cases "position_of db u (s_id stock)")
    case None
    with stock show ?thesis by (simp add: sell_stock_def position_of_def Let_def)
  next
    case pos: (Some portfolio)
    show ?thesis
      using stock pos
      by (cases "fetchone (\<lambda>r. u_id r = u) (users db)")
         (simp_all add: sell_stock_def position_of_def insert_transaction_def Let_def)
  qed
qed

subsection \<open>Conservation in one trade\<close>

lemma available_units_update:
  assumes "distinct (map s_id (stocks db))"
      and "fetchone P (stocks db) = Some stock"
  shows "sum_list (map (\<lambda>s. if s_id s = sid then s_available_quantity s else 0)
           (sql_update (\<lambda>s. s_id s = s_id stock) (\<lambda>s. s\<lparr>s_available_quantity := n\<rparr>)
              (stocks db)))
         = available_units db sid
           + (if s_id stock = sid then n - s_available_quantity stock else 0)"
proof -
  from assms(2) have "stock \<in> set (stocks db)"
    using find_Some_member [of P "stocks db" stock] by (simp add: fetchone_def)
  then have "find (\<lambda>x. s_id x = s_id stock) (stocks db) = Some stock"
    using find_key_member [OF assms(1)] by blast
  from sum_update_one [OF assms(1) this] show ?thesis
    by (simp add: sql_update_def available_units_alt)
qed

lemma buy_stock_units:
  assumes "db_constraints db"
  shows "total_units (fst (buy_stock t u symbol q db)) sid = total_units db sid"
proof -
  from buy_stock_outcome [of t u symbol q db] show ?thesis
  proof (elim disjE exE conjE)
    fix m assume "buy_stock t u symbol q db = (db, Failed m)"
    then show ?thesis by simp
  next
    fix stock :: stock_row and user :: user_row and db3 :: database
    let ?db2 = "db\<lparr>users := sql_update (\<lambda>r. u_id r = u)
                (\<lambda>r. r\<lparr>u_balance := u_balance user - s_current_price stock * of_int q\<rparr>)
                (users db),
             stocks := sql_update (\<lambda>s. s_id s = s_id stock)
                (\<lambda>s. s\<lparr>s_available_quantity := s_available_quantity stock - q\<rparr>)
                (stocks db)\<rparr>"
    assume stock: "fetchone (\<lambda>s. s_symbol s = upper symbol) (stocks db) = Some stock"
      and bp: "buy_portfolio u (s_id stock) q (s_current_price stock) ?db2 = Inr db3"
      and res: "buy_stock t u symbol q db =
         (db3\<lparr>transactions := transactions db3 @
             [\<lparr>t_id = t, t_user_id = u, t_stock_id = s_id stock, t_transaction_type = BUY,
               t_quantity = q, t_price = s_current_price stock,
               t_total_amount = s_current_price stock * of_int q\<rparr>]\<rparr>,
          Bought t (upper symbol) q (s_current_price stock) (s_current_price stock * of_int q)
            (u_balance user - s_current_price stock * of_int q))"
    from assms have d: "distinct (map s_id (stocks db))"
      and k: "distinct (map (\<lambda>p. (up_user_id p, up_stock_id p)) (user_portfolios ?db2))"
      by (simp_all add: db_constraints_def)
    have "held_units db3 sid = held_units ?db2 sid + (if s_id stock = sid then q else 0)"
      by (rule buy_portfolio_held [OF k bp])
    then have h: "held_units db3 sid = held_units db sid + (if s_id stock = sid then q else 0)"
      by (simp add: held_units_def)
    have "available_units db3 sid = available_units ?db2 sid"
      by (simp add: available_units_def buy_portfolio_frame(1) [OF bp])
    also have "\<dots> = available_units db sid
           + (if s_id stock = sid then (s_available_quantity stock - q) - s_available_quantity stock else 0)"
      using available_units_update [OF d stock] by (simp add: available_units_alt)
    finally have a: "available_units db3 sid
        = available_units db sid - (if s_id stock = sid then q else 0)"
      by simp
    from h a have "total_units db3 sid = total_units db sid"
      by (simp add: total_units_def)
    with res show ?thesis
      by (simp add: total_units_def available_units_def held_units_def)
  qed
qed


lemma sell_stock_units:
  assumes "db_constraints db"
  shows "total_units (fst (sell_stock t u symbol q db)) sid = total_units db sid"
proof -
  from sell_stock_outcome [of t u symbol q db] show ?thesis
  proof (elim disjE exE conjE)
    fix m assume "sell_stock t u symbol q db = (db, Failed m)"
    then show ?thesis by simp
  next
    fix stock :: stock_row and portfolio :: portfolio_row and user :: user_row
    let ?ps = "if up_quantity portfolio - q = 0
               then sql_delete (\<lambda>p. up_user_id p = u \<and> up_stock_id p = s_id stock)
                      (user_portfolios db)
               else sql_update (\<lambda>p. up_user_id p = u \<and> up_stock_id p = s_id stock)
                      (\<lambda>p. p\<lparr>up_quantity := up_quantity portfolio - q\<rparr>)
                      (user_portfolios db)"
    let ?g = "\<lambda>p. if up_stock_id p = sid then up_quantity p else 0"
    assume stock: "fetchone (\<lambda>s. s_symbol s = upper symbol) (stocks db) = Some stock"
      and pos: "position_of db u (s_id stock) = Some portfolio"
      and res: "sell_stock t u symbol q db =
        (db\<lparr>users := sql_update (\<lambda>r. u_id r = u)
               (\<lambda>r. r\<lparr>u_balance := u_balance user + s_current_price stock * of_int q\<rparr>)
               (users db),
            stocks := sql_update (\<lambda>s. s_id s = s_id stock)
               (\<lambda>s. s\<lparr>s_available_quantity := s_available_quantity stock + q\<rparr>)
               (stocks db),
            user_portfolios := ?ps,
            transactions := transactions db @
              [\<lparr>t_id = t, t_user_id = u, t_stock_id = s_id stock, t_transaction_type = SELL,
                t_quantity = q, t_price = s_current_price stock,
                t_total_amount = s_current_price stock * of_int q\<rparr>]\<rparr>,
         Sold t (upper symbol) q (s_current_price stock) (s_current_price stock * of_int q)
           (u_balance user + s_current_price stock * of_int q))"
    from assms have d: "distinct (map s_id (stocks db))"
      and k: "distinct (map (\<lambda>p. (up_user_id p, up_stock_id p)) (user_portfolios db))"
      by (simp_all add: db_constraints_def)
    from pos have f: "find (\<lambda>p. (up_user_id p, up_stock_id p) = (u, s_id stock))
                        (user_portfolios db) = Some portfolio"
      by (simp add: position_of_def fetchone_def)
    then have ks: "up_stock_id portfolio = s_id stock"
      using find_Some_member [OF f] by simp
    have h: "sum_list (map ?g ?ps) = held_units db sid - (if s_id stock = sid then q else 0)"
    proof (cases "up_quantity portfolio - q = 0")
      case True
      then show ?thesis
        using sum_delete_one [OF k f, of ?g] ks
        by (simp add: sql_delete_def held_units_alt)
    next
      case False
      then show ?thesis
        using sum_update_one [OF k f, of ?g "\<lambda>p. p\<lparr>up_quantity := up_quantity portfolio - q\<rparr>"] ks
        by (simp add: sql_update_def held_units_alt)
    qed
    have a: "sum_list (map (\<lambda>s. if s_id s = sid then s_available_quantity s else 0)
           (sql_update (\<lambda>s. s_id s = s_id stock)
              (\<lambda>s. s\<lparr>s_available_quantity := s_available_quantity stock + q\<rparr>) (stocks db)))
         = available_units db sid + (if s_id stock = sid then q else 0)"
      using available_units_update [OF d stock, of sid "s_available_quantity stock + q"]
      by simp
    from res h a show ?thesis
      by (simp add: total_units_def available_units_alt held_units_alt)
  qed
qed

subsection \<open>The schema constraints are kept\<close>

lemma find_stock_id_member:
  "fetchone P (stocks db) = Some stock \<Longrightarrow> s_id stock \<in> set (map s_id (stocks db))"
  using find_Some_member [of P "stocks db" stock] by (auto simp: fetchone_def)

lemma buy_stock_constraints:
  assumes "db_constraints db"
  shows "db_constraints (fst (buy_stock t u symbol q db))"
    and "map s_id (stocks (fst (buy_stock t u symbol q db))) = map s_id (stocks db)"
proof -
  from buy_stock_outcome [of t u symbol q db]
  have "db_constraints (fst (buy_stock t u symbol q db)) \<and>
        map s_id (stocks (fst (buy_stock t u symbol q db))) = map s_id (stocks db)"
  proof (elim disjE exE conjE)
    fix m assume "buy_stock t u symbol q db = (db, Failed m)"
    with assms show ?thesis by simp
  next
    fix stock :: stock_row and user :: user_row and db3 :: database
    let ?db2 = "db\<lparr>users := sql_update (\<lambda>r. u_id r = u)
                (\<lambda>r. r\<lparr>u_balance := u_balance user - s_current_price stock * of_int q\<rparr>)
                (users db),
             stocks := sql_update (\<lambda>s. s_id s = s_id stock)
                (\<lambda>s. s\<lparr>s_available_quantity := s_available_quantity stock - q\<rparr>)
                (stocks db)\<rparr>"
    let ?S = "set (map s_id (stocks db))"
    assume stock: "fetchone (\<lambda>s. s_symbol s = upper symbol) (stocks db) = Some stock"
      and bp: "buy_portfolio u (s_id stock) q (s_current_price stock) ?db2 = Inr db3"
      and res: "buy_stock t u symbol q db =
         (db3\<lparr>transactions := transactions db3 @
             [\<lparr>t_id = t, t_user_id = u, t_stock_id = s_id stock, t_transaction_type = BUY,
               t_quantity = q, t_price = s_current_price stock,
               t_total_amount = s_current_price stock * of_int q\<rparr>]\<rparr>,
          Bought t (upper symbol) q (s_current_price stock) (s_current_price stock * of_int q)
            (u_balance user - s_current_price stock * of_int q))"
    have ids: "map s_id (stocks db3) = map s_id (stocks db)"
      by (simp add: buy_portfolio_frame(1) [OF bp] sql_update_keys)
    from assms have k: "distinct (map (\<lambda>p. (up_user_id p, up_stock_id p)) (user_portfolios ?db2))"
      and fk: "list_all (\<lambda>p. up_stock_id p \<in> ?S) (user_portfolios ?db2)"
      and hk: "list_all (\<lambda>h. ph_stock_id h \<in> ?S) (stock_price_history db)"
      and d: "distinct (map s_id (stocks db))"
      by (simp_all add: db_constraints_def)
    note keys = buy_portfolio_keys [OF k fk find_stock_id_member [OF stock] bp]
    have "db_constraints db3"
      unfolding db_constraints_def ids
      using keys d hk by (simp add: buy_portfolio_frame(3) [OF bp])
    then have "db_constraints (db3\<lparr>transactions := transactions db3 @
             [\<lparr>t_id = t, t_user_id = u, t_stock_id = s_id stock, t_transaction_type = BUY,
               t_quantity = q, t_price = s_current_price stock,
               t_total_amount = s_current_price stock * of_int q\<rparr>]\<rparr>)"
      by (simp add: db_constraints_def)
    with res ids show ?thesis by simp
  qed
  then show "db_constraints (fst (buy_stock t u symbol q db))"
    and "map s_id (stocks (fst (buy_stock t u symbol q db))) = map s_id (stocks db)"
    by simp_all
qed

lemma sell_stock_constraints:
  assumes "db_constraints db"
  shows "db_constraints (fst (sell_stock t u symbol q db))"
    and "map s_id (stocks (fst (sell_stock t u symbol q db))) = map s_id (stocks db)"
proof -
  from sell_stock_outcome [of t u symbol q db]
  have "db_constraints (fst (sell_stock t u symbol q db)) \<and>
        map s_id (stocks (fst (sell_stock t u symbol q db))) = map s_id (stocks db)"
  proof (elim disjE exE conjE)
    fix m assume "sell_stock t u symbol q db = (db, Failed m)"
    with assms show ?thesis by simp
  next
    fix stock :: stock_row and portfolio :: portfolio_row and user :: user_row
    assume res: "sell_stock t u symbol q db =
        (db\<lparr>users := sql_update (\<lambda>r. u_id r = u)
               (\<lambda>r. r\<lparr>u_balance := u_balance user + s_current_price stock * of_int q\<rparr>)
               (users db),
            stocks := sql_update (\<lambda>s. s_id s = s_id stock)
               (\<lambda>s. s\<lparr>s_available_quantity := s_available_quantity stock + q\<rparr>)
               (stocks db),
            user_portfolios :=
              (if up_quantity portfolio - q = 0
               then sql_delete (\<lambda>p. up_user_id p = u \<and> up_stock_id p = s_id stock)
                      (user_portfolios db)
               else sql_update (\<lambda>p. up_user_id p = u \<and> up_stock_id p = s_id stock)
                      (\<lambda>p. p\<lparr>up_quantity := up_quantity portfolio - q\<rparr>)
                      (user_portfolios db)),
            transactions := transactions db @
              [\<lparr>t_id = t, t_user_id = u, t_stock_id = s_id stock, t_transaction_type = SELL,
                t_quantity = q, t_price = s_current_price stock,
                t_total_amount = s_current_price stock * of_int q\<rparr>]\<rparr>,
         Sold t (upper symbol) q (s_current_price stock) (s_current_price stock * of_int q)
           (u_balance user + s_current_price stock * of_int q))"
    from assms show ?thesis
      unfolding res db_constraints_def
      by (auto simp: sql_update_keys sql_delete_distinct
               intro!: sql_update_list_all sql_delete_list_all)
  qed
  then show "db_constraints (fst (sell_stock t u symbol q db))"
    and "map s_id (stocks (fst (sell_stock t u symbol q db))) = map s_id (stocks db)"
    by simp_all
qed

lemma take_loan_frame:
  "stocks (fst (take_loan l u a db)) = stocks db"
  "user_portfolios (fst (take_loan l u a db)) = user_portfolios db"
  "stock_price_history (fst (take_loan l u a db)) = stock_price_history db"
  by (auto simp: take_loan_def insert_loan_def Let_def split: option.splits)

lemma update_prices_loop_frame:
  "user_portfolios (update_prices_loop c i rows db) = user_portfolios db"
  "map (\<lambda>s. (s_id s, s_available_quantity s)) (stocks (update_prices_loop c i rows db))
     = map (\<lambda>s. (s_id s, s_available_quantity s)) (stocks db)"
  by (induction c i rows db rule: update_prices_loop.induct)
     (simp_all add: Let_def insert_price_def sql_update_keys)

lemma update_prices_loop_history:
  "list_all (\<lambda>h. ph_stock_id h \<in> S) (stock_price_history db) \<Longrightarrow>
   list_all (\<lambda>s. s_id s \<in> S) rows \<Longrightarrow>
   list_all (\<lambda>h. ph_stock_id h \<in> S) (stock_price_history (update_prices_loop c i rows db))"
  by (induction c i rows db rule: update_prices_loop.induct)
     (simp_all add: Let_def insert_price_def)


lemma available_units_pairs:
  "available_units db sid =
     sum_list (map (\<lambda>(i, a). if i = sid then a else 0)
       (map (\<lambda>s. (s_id s, s_available_quantity s)) (stocks db)))"
  by (simp add: available_units_alt o_def)

lemma stock_ids_pairs:
  "map s_id (stocks db) = map fst (map (\<lambda>s. (s_id s, s_available_quantity s)) (stocks db))"
  by (simp add: o_def)

lemma update_stock_prices_units:
  "total_units (update_stock_prices c db) sid = total_units db sid"
  by (simp add: total_units_def available_units_pairs held_units_def
        update_stock_prices_def update_prices_loop_frame)

lemma update_stock_prices_ids:
  "map s_id (stocks (update_stock_prices c db)) = map s_id (stocks db)"
  by (simp only: stock_ids_pairs update_stock_prices_def update_prices_loop_frame)

lemma update_stock_prices_constraints:
  assumes "db_constraints db"
  shows "db_constraints (update_stock_prices c db)"
proof -
  let ?S = "set (map s_id (stocks db))"
  have "list_all (\<lambda>s. s_id s \<in> ?S) (stocks db)"
    by (simp add: list_all_iff)
  moreover from assms have "list_all (\<lambda>h. ph_stock_id h \<in> ?S) (stock_price_history db)"
    by (simp add: db_constraints_def)
  ultimately have "list_all (\<lambda>h. ph_stock_id h \<in> ?S)
      (stock_price_history (update_stock_prices c db))"
    unfolding update_stock_prices_def by (rule update_prices_loop_history [rotated])
  with assms show ?thesis
    unfolding db_constraints_def update_stock_prices_ids
    by (simp add: update_stock_prices_def update_prices_loop_frame)
qed

subsection \<open>Registration\<close>

lemma register_stock_outcome:
  "(register_stock i symbol name price quantity db = (db, Failed Stock_symbol_already_exists) \<and>
      (i \<in> set (map s_id (stocks db)) \<or> upper symbol \<in> set (map s_symbol (stocks db)))) \<or>
   (i \<notin> set (map s_id (stocks db)) \<and> upper symbol \<notin> set (map s_symbol (stocks db)) \<and>
    register_stock i symbol name price quantity db =
      (db\<lparr>stocks := stocks db @
             [\<lparr>s_id = i, s_symbol = upper symbol, s_name = name,
               s_current_price = max 1 (min 100 price), s_available_quantity = quantity\<rparr>],
          stock_price_history := stock_price_history db @
             [\<lparr>ph_stock_id = i, ph_price = max 1 (min 100 price)\<rparr>]\<rparr>,
       Stock_registered i))"
  by (simp add: register_stock_def insert_stock_def insert_price_def Let_def)

lemma register_stock_constraints:
  assumes "db_constraints db"
  shows "db_constraints (fst (register_stock i symbol name price quantity db))"
  using register_stock_outcome [of i symbol name price quantity db] assms
  by (auto simp: db_constraints_def list_all_iff)

lemma register_stock_ids:
  "set (map s_id (stocks db))
     \<subseteq> set (map s_id (stocks (fst (register_stock i symbol name price quantity db))))"
  using register_stock_outcome [of i symbol name price quantity db] by auto

lemma register_stock_units:
  assumes "sid \<in> set (map s_id (stocks db))"
  shows "total_units (fst (register_stock i symbol name price quantity db)) sid
           = total_units db sid"
  using register_stock_outcome [of i symbol name price quantity db] assms
  by (auto simp: total_units_def available_units_def held_units_def)

lemma absent_stock_units:
  assumes "db_constraints db" and "sid \<notin> set (map s_id (stocks db))"
  shows "total_units db sid = 0"
proof -
  from assms have "filter (\<lambda>s. s_id s = sid) (stocks db) = []"
    by (auto simp: filter_empty_conv)
  moreover from assms have "filter (\<lambda>p. up_stock_id p = sid) (user_portfolios db) = []"
    by (auto simp: filter_empty_conv db_constraints_def list_all_iff)
  ultimately show ?thesis
    by (simp add: total_units_def available_units_def held_units_def)
qed

lemma register_stock_minted:
  assumes "db_constraints db"
      and "snd (register_stock i symbol name price quantity db) = Stock_registered i"
  shows "total_units (fst (register_stock i symbol name price quantity db)) i = quantity"
    and "i \<in> set (map s_id (stocks (fst (register_stock i symbol name price quantity db))))"
proof -
  from register_stock_outcome [of i symbol name price quantity db] assms(2)
  have fresh: "i \<notin> set (map s_id (stocks db))"
    and res: "fst (register_stock i symbol name price quantity db) =
      db\<lparr>stocks := stocks db @
             [\<lparr>s_id = i, s_symbol = upper symbol, s_name = name,
               s_current_price = max 1 (min 100 price), s_available_quantity = quantity\<rparr>],
          stock_price_history := stock_price_history db @
             [\<lparr>ph_stock_id = i, ph_price = max 1 (min 100 price)\<rparr>]\<rparr>"
    by auto
  from absent_stock_units [OF assms(1) fresh]
  show "total_units (fst (register_stock i symbol name price quantity db)) i = quantity"
    unfolding res by (simp add: total_units_def available_units_def held_units_def)
  show "i \<in> set (map s_id (stocks (fst (register_stock i symbol name price quantity db))))"
    unfolding res by simp
qed

subsection \<open>Any sequence of calls\<close>

lemma take_loan_constraints:
  "db_constraints db \<Longrightarrow> db_constraints (fst (take_loan l u a db))"
  by (simp add: db_constraints_def take_loan_frame)

lemma take_loan_units:
  "total_units (fst (take_loan l u a db)) sid = total_units db sid"
  by (simp add: total_units_def available_units_def held_units_def take_loan_frame)

lemma perform_constraints:
  "db_constraints db \<Longrightarrow> db_constraints (perform c db)"
  by (cases c)
     (simp_all add: register_stock_constraints buy_stock_constraints(1)
        sell_stock_constraints(1) update_stock_prices_constraints take_loan_constraints)

lemma perform_ids:
  "db_constraints db \<Longrightarrow> set (map s_id (stocks db)) \<subseteq> set (map s_id (stocks (perform c db)))"
  using register_stock_ids
  by (cases c)
     (simp_all only: perform.simps buy_stock_constraints(2) sell_stock_constraints(2)
        update_stock_prices_ids take_loan_frame subset_refl)

lemma perform_units:
  "db_constraints db \<Longrightarrow> sid \<in> set (map s_id (stocks db)) \<Longrightarrow>
   total_units (perform c db) sid = total_units db sid"
  by (cases c)
     (simp_all only: perform.simps register_stock_units buy_stock_units sell_stock_units
        update_stock_prices_units take_loan_units)

lemma perform_all_units:
  "db_constraints db \<Longrightarrow> sid \<in> set (map s_id (stocks db)) \<Longrightarrow>
   total_units (perform_all cs db) sid = total_units db sid"
proof (induction cs arbitrary: db)
  case Nil
  then show ?case by simp
next
  case (Cons c cs)
  from Cons.prems have "db_constraints (perform c db)"
    by (simp add: perform_constraints)
  moreover from Cons.prems have "sid \<in> set (map s_id (stocks (perform c db)))"
    using perform_ids [of db c] by blast
  ultimately have "total_units (perform_all cs (perform c db)) sid = total_units (perform c db) sid"
    by (rule Cons.IH)
  with Cons.prems show ?case by (simp add: perform_units)
qed

lemma perform_all_constraints:
  "db_constraints db \<Longrightarrow> db_constraints (perform_all cs db)"
  by (induction cs arbitrary: db) (simp_all add: perform_constraints)

subsection \<open>The constraints hold from the first start\<close>

lemma init_database_constraints: "db_constraints init_database"
  by (simp add: db_constraints_def init_database_def)

lemma add_sample_stocks_constraints:
  "db_constraints db \<Longrightarrow> add_sample_stocks new_id i rows db = Inr db' \<Longrightarrow> db_constraints db'"
proof (induction new_id i rows db rule: add_sample_stocks.induct)
  case (1 new_id i db)
  then show ?case by simp
next
  case (2 new_id i symbol name price quantity rest db)
  let ?r = "\<lparr>s_id = new_id i, s_symbol = symbol, s_name = name,
             s_current_price = price, s_available_quantity = quantity\<rparr>"
  from "2.prems"(2) obtain db1 where ins: "insert_stock ?r db = Inr db1"
    and rest: "add_sample_stocks new_id (Suc i) rest
                 (insert_price \<lparr>ph_stock_id = new_id i, ph_price = price\<rparr> db1) = Inr db'"
    by (auto split: sum.splits)
  from ins "2.prems"(1)
  have "db_constraints (insert_price \<lparr>ph_stock_id = new_id i, ph_price = price\<rparr> db1)"
    by (auto simp: insert_stock_def insert_price_def db_constraints_def list_all_iff
             split: if_splits)
  with "2.IH" [OF ins] rest show ?case by simp
qed

lemma add_test_users_frame:
  "add_test_users new_id i names db = Inr db' \<Longrightarrow>
   stocks db' = stocks db \<and> user_portfolios db' = user_portfolios db \<and>
   stock_price_history db' = stock_price_history db"
proof (induction new_id i names db rule: add_test_users.induct)
  case (1 new_id i db)
  then show ?case by simp
next
  case (2 new_id i username rest db)
  then show ?case
    by (auto simp: insert_user_def split: sum.splits if_splits)
qed

lemma setup_initial_data_constraints:
  assumes "db_constraints db"
      and "setup_initial_data new_stock_id new_user_id db = Inr db'"
  shows "db_constraints db'"
proof -
  from assms(2) obtain db1 where
    s: "(if length (stocks db) = 0 then add_sample_stocks new_stock_id 0 sample_stocks db
         else Inr db) = Inr db1"
    and u: "(if length (users db1) = 0 then add_test_users new_user_id 0 test_usernames db1
             else Inr db1) = Inr db'"
    by (auto simp: setup_initial_data_def split: sum.splits)
  from s assms(1) have "db_constraints db1"
    by (auto dest: add_sample_stocks_constraints split: if_splits)
  with u show ?thesis
    by (auto simp: db_constraints_def dest!: add_test_users_frame split: if_splits)
qed

text \<open>
  Claim C1: for every stock, in every state reached from its registration by any
  sequence of calls, the units on offer plus the units held in all portfolios equal the
  quantity minted at registration. The sequence may hold any of the five mutating
  methods with any arguments; a call that fails has committed nothing.
\<close>

theorem units_conserved:
  assumes "db_constraints db"
      and "snd (register_stock i symbol name price quantity db) = Stock_registered i"
  shows "total_units (perform_all calls (fst (register_stock i symbol name price quantity db))) i
           = quantity"
proof -
  have "db_constraints (fst (register_stock i symbol name price quantity db))"
    using assms(1) by (rule register_stock_constraints)
  then show ?thesis
    using register_stock_minted [OF assms] by (simp add: perform_all_units)
qed

theorem units_conserved_witness:
  "db_constraints seeded \<and>
   snd (register_stock ''x1'' ''xyz'' ''XYZ Corp.'' 50 100 seeded) = Stock_registered ''x1'' \<and>
   total_units
     (perform_all [Buy_stock ''t1'' ''u0'' ''xyz'' 10, Update_stock_prices (\<lambda>i. 1 / 16),
                   Sell_stock ''t2'' ''u0'' ''XYZ'' 4]
        (fst (register_stock ''x1'' ''xyz'' ''XYZ Corp.'' 50 100 seeded))) ''x1'' = 100"
proof -
  have c: "db_constraints seeded"
    by (simp add: db_constraints_def seed_defs sql_defs)
  have r: "snd (register_stock ''x1'' ''xyz'' ''XYZ Corp.'' 50 100 seeded) = Stock_registered ''x1''"
    by (simp add: seed_defs sql_defs method_defs)
  from units_conserved [OF c r] have
    "total_units
       (perform_all [Buy_stock ''t1'' ''u0'' ''xyz'' 10, Update_stock_prices (\<lambda>i. 1 / 16),
                     Sell_stock ''t2'' ''u0'' ''XYZ'' 4]
          (fst (register_stock ''x1'' ''xyz'' ''XYZ Corp.'' 50 100 seeded))) ''x1'' = 100" .
  with c r show ?thesis by blast
qed

section \<open>The average buy price\<close>

lemma buy_portfolio_position:
  assumes "buy_portfolio u s q price db = Inr db'"
  shows "position_of db' u s =
     (case position_of db u s of
        Some p \<Rightarrow>
          Some (p\<lparr>up_quantity := up_quantity p + q,
                  up_avg_buy_price :=
                    ((of_int (up_quantity p) * up_avg_buy_price p) + (of_int q * price))
                      / of_int (up_quantity p + q)\<rparr>)
      | None \<Rightarrow>
          Some \<lparr>up_user_id = u, up_stock_id = s, up_quantity = q, up_avg_buy_price = price\<rparr>)"
proof (cases "position_of db u s")
  case None
  then have "find (\<lambda>p. up_user_id p = u \<and> up_stock_id p = s) (user_portfolios db) = None"
    by (simp add: position_of_def fetchone_def)
  from find_append_new [OF this,
      of "\<lparr>up_user_id = u, up_stock_id = s, up_quantity = q, up_avg_buy_price = price\<rparr>"]
    None assms
  show ?thesis
    by (auto simp: buy_portfolio_def position_of_def fetchone_def insert_portfolio_def
             split: if_splits)
next
  case (Some p)
  let ?P = "\<lambda>p. up_user_id p = u \<and> up_stock_id p = s"
  let ?f = "\<lambda>r. r\<lparr>up_quantity := up_quantity p + q,
                  up_avg_buy_price :=
                    ((of_int (up_quantity p) * up_avg_buy_price p) + (of_int q * price))
                      / of_int (up_quantity p + q)\<rparr>"
  from Some have f: "find ?P (user_portfolios db) = Some p"
    by (simp add: position_of_def fetchone_def)
  from find_Some_member [OF f] have "?P (?f p)" by simp
  with f have upd: "fetchone ?P (sql_update ?P ?f (user_portfolios db)) = Some (?f p)"
    unfolding fetchone_def sql_update_def by (rule find_update)
  from assms f have db': "db' = db\<lparr>user_portfolios := sql_update ?P ?f (user_portfolios db)\<rparr>"
    unfolding buy_portfolio_def fetchone_def Let_def
    by (simp split: if_splits del: of_int_add)
  have "position_of db' u s = Some (?f p)"
    unfolding db' position_of_def using upd by (simp del: of_int_add)
  with Some show ?thesis by (simp del: of_int_add)
qed

lemma buy_stock_position:
  assumes "fetchone (\<lambda>s. s_symbol s = upper symbol) (stocks db) = Some stock"
      and "snd (buy_stock t u symbol q db) = Bought t' sy q' price cost nb"
  shows "price = s_current_price stock"
    and "position_of (fst (buy_stock t u symbol q db)) u (s_id stock) =
     (case position_of db u (s_id stock) of
        Some p \<Rightarrow>
          Some (p\<lparr>up_quantity := up_quantity p + q,
                  up_avg_buy_price :=
                    ((of_int (up_quantity p) * up_avg_buy_price p) + (of_int q * price))
                      / of_int (up_quantity p + q)\<rparr>)
      | None \<Rightarrow>
          Some \<lparr>up_user_id = u, up_stock_id = s_id stock, up_quantity = q,
                up_avg_buy_price = price\<rparr>)"
proof -
  from buy_stock_outcome [of t u symbol q db] assms
  obtain user :: user_row and db3 :: database where
    bp: "buy_portfolio u (s_id stock) q (s_current_price stock)
         (db\<lparr>users := sql_update (\<lambda>r. u_id r = u)
                (\<lambda>r. r\<lparr>u_balance := u_balance user - s_current_price stock * of_int q\<rparr>)
                (users db),
             stocks := sql_update (\<lambda>s. s_id s = s_id stock)
                (\<lambda>s. s\<lparr>s_available_quantity := s_available_quantity stock - q\<rparr>)
                (stocks db)\<rparr>) = Inr db3"
    and res: "buy_stock t u symbol q db =
         (db3\<lparr>transactions := transactions db3 @
             [\<lparr>t_id = t, t_user_id = u, t_stock_id = s_id stock, t_transaction_type = BUY,
               t_quantity = q, t_price = s_current_price stock,
               t_total_amount = s_current_price stock * of_int q\<rparr>]\<rparr>,
          Bought t (upper symbol) q (s_current_price stock) (s_current_price stock * of_int q)
            (u_balance user - s_current_price stock * of_int q))"
    by auto
  from res assms(2) show p: "price = s_current_price stock" by simp
  from buy_portfolio_position [OF bp] res
  show "position_of (fst (buy_stock t u symbol q db)) u (s_id stock) =
     (case position_of db u (s_id stock) of
        Some p \<Rightarrow>
          Some (p\<lparr>up_quantity := up_quantity p + q,
                  up_avg_buy_price :=
                    ((of_int (up_quantity p) * up_avg_buy_price p) + (of_int q * price))
                      / of_int (up_quantity p + q)\<rparr>)
      | None \<Rightarrow>
          Some \<lparr>up_user_id = u, up_stock_id = s_id stock, up_quantity = q,
                up_avg_buy_price = price\<rparr>)"
    unfolding p by (simp add: position_of_def)
qed

text \<open>
  Claim C3: a successful buy of \<open>q\<close> units at the fill price \<open>p\<close> into a position with
  quantity \<open>old_qty\<close> and average \<open>old_avg\<close> leaves the position with quantity
  \<open>old_qty + q\<close> and average \<open>(old_qty * old_avg + q * p) / (old_qty + q)\<close>; and after
  a buy of \<open>q_a\<close> at \<open>p_a\<close> into no position and a buy of \<open>q_b\<close> at \<open>p_b\<close>, the average is
  \<open>(q_a * p_a + q_b * p_b) / (q_a + q_b)\<close>. Between the two buys the database may change
  in any way that keeps the portfolio table and lets the symbol name the same stock, as
  a price round does. Prices and averages are real numbers here.
\<close>

theorem buy_weighted_average:
  "(fetchone (\<lambda>s. s_symbol s = upper symbol) (stocks db) = Some stock \<and>
    position_of db u (s_id stock) = Some pos \<and>
    snd (buy_stock t u symbol q db) = Bought t' sy q' p cost nb
    \<longrightarrow>
    map_option (\<lambda>r. (up_quantity r, up_avg_buy_price r))
        (position_of (fst (buy_stock t u symbol q db)) u (s_id stock))
      = Some (up_quantity pos + q,
              (of_int (up_quantity pos) * up_avg_buy_price pos + of_int q * p)
                / of_int (up_quantity pos + q)))
   \<and>
   (fetchone (\<lambda>s. s_symbol s = upper symbol_a) (stocks db_a) = Some stock_a \<and>
    position_of db_a u (s_id stock_a) = None \<and>
    snd (buy_stock t_a u symbol_a q_a db_a) = Bought t_a' sy_a q_a' p_a cost_a nb_a \<and>
    user_portfolios db_b = user_portfolios (fst (buy_stock t_a u symbol_a q_a db_a)) \<and>
    fetchone (\<lambda>s. s_symbol s = upper symbol_b) (stocks db_b) = Some stock_b \<and>
    s_id stock_b = s_id stock_a \<and>
    snd (buy_stock t_b u symbol_b q_b db_b) = Bought t_b' sy_b q_b' p_b cost_b nb_b
    \<longrightarrow>
    map_option (\<lambda>r. (up_quantity r, up_avg_buy_price r))
        (position_of (fst (buy_stock t_b u symbol_b q_b db_b)) u (s_id stock_a))
      = Some (q_a + q_b, (of_int q_a * p_a + of_int q_b * p_b) / of_int (q_a + q_b)))"
proof (intro conjI impI; elim conjE)
  assume "fetchone (\<lambda>s. s_symbol s = upper symbol) (stocks db) = Some stock"
    and "position_of db u (s_id stock) = Some pos"
    and "snd (buy_stock t u symbol q db) = Bought t' sy q' p cost nb"
  then show "map_option (\<lambda>r. (up_quantity r, up_avg_buy_price r))
        (position_of (fst (buy_stock t u symbol q db)) u (s_id stock))
      = Some (up_quantity pos + q,
              (of_int (up_quantity pos) * up_avg_buy_price pos + of_int q * p)
                / of_int (up_quantity pos + q))"
    using buy_stock_position(2) [of symbol db stock t u q t' sy q' p cost nb] by simp
next
  assume s1: "fetchone (\<lambda>s. s_symbol s = upper symbol_a) (stocks db_a) = Some stock_a"
    and fresh: "position_of db_a u (s_id stock_a) = None"
    and b1: "snd (buy_stock t_a u symbol_a q_a db_a) = Bought t_a' sy_a q_a' p_a cost_a nb_a"
    and same: "user_portfolios db_b = user_portfolios (fst (buy_stock t_a u symbol_a q_a db_a))"
    and s2: "fetchone (\<lambda>s. s_symbol s = upper symbol_b) (stocks db_b) = Some stock_b"
    and ids: "s_id stock_b = s_id stock_a"
    and b2: "snd (buy_stock t_b u symbol_b q_b db_b) = Bought t_b' sy_b q_b' p_b cost_b nb_b"
  from buy_stock_position(2) [OF s1 b1] fresh
  have "position_of (fst (buy_stock t_a u symbol_a q_a db_a)) u (s_id stock_a)
      = Some \<lparr>up_user_id = u, up_stock_id = s_id stock_a, up_quantity = q_a,
              up_avg_buy_price = p_a\<rparr>"
    by simp
  with same have "position_of db_b u (s_id stock_b)
      = Some \<lparr>up_user_id = u, up_stock_id = s_id stock_a, up_quantity = q_a,
              up_avg_buy_price = p_a\<rparr>"
    by (simp add: position_of_def ids)
  with buy_stock_position(2) [OF s2 b2] ids
  show "map_option (\<lambda>r. (up_quantity r, up_avg_buy_price r))
        (position_of (fst (buy_stock t_b u symbol_b q_b db_b)) u (s_id stock_a))
      = Some (q_a + q_b, (of_int q_a * p_a + of_int q_b * p_b) / of_int (q_a + q_b))"
    by simp
qed


theorem buy_weighted_average_witness:
  "fetchone (\<lambda>s. s_symbol s = upper ''googl'') (stocks seeded)
     = Some \<lparr>s_id = ''s1'', s_symbol = ''GOOGL'', s_name = ''Alphabet Inc.'',
             s_current_price = 80, s_available_quantity = 800\<rparr> \<and>
   position_of seeded ''u0'' ''s1'' = None \<and>
   snd (buy_stock ''t1'' ''u0'' ''googl'' 10 seeded) = Bought ''t1'' ''GOOGL'' 10 80 800 9200 \<and>
   user_portfolios after_price_round = user_portfolios after_first_buy \<and>
   fetchone (\<lambda>s. s_symbol s = upper ''GOOGL'') (stocks after_price_round)
     = Some \<lparr>s_id = ''s1'', s_symbol = ''GOOGL'', s_name = ''Alphabet Inc.'',
             s_current_price = 85, s_available_quantity = 790\<rparr> \<and>
   position_of after_price_round ''u0'' ''s1''
     = Some \<lparr>up_user_id = ''u0'', up_stock_id = ''s1'', up_quantity = 10,
             up_avg_buy_price = 80\<rparr> \<and>
   snd (buy_stock ''t2'' ''u0'' ''GOOGL'' 10 after_price_round)
     = Bought ''t2'' ''GOOGL'' 10 85 850 8350 \<and>
   map_option (\<lambda>r. (up_quantity r, up_avg_buy_price r))
       (position_of (fst (buy_stock ''t2'' ''u0'' ''GOOGL'' 10 after_price_round)) ''u0'' ''s1'')
     = Some (20, 165 / 2)"
proof -
  let ?g0 = "\<lparr>s_id = ''s1'', s_symbol = ''GOOGL'', s_name = ''Alphabet Inc.'',
             s_current_price = 80, s_available_quantity = 800\<rparr>"
  let ?g1 = "\<lparr>s_id = ''s1'', s_symbol = ''GOOGL'', s_name = ''Alphabet Inc.'',
             s_current_price = 85, s_available_quantity = 790\<rparr>"
  let ?pos = "\<lparr>up_user_id = ''u0'', up_stock_id = ''s1'', up_quantity = 10,
             up_avg_buy_price = 80\<rparr>"
  have s0: "fetchone (\<lambda>s. s_symbol s = upper ''googl'') (stocks seeded) = Some ?g0"
    by (simp add: seed_defs sql_defs method_defs)
  have fresh: "position_of seeded ''u0'' (s_id ?g0) = None"
    by (simp add: seed_defs sql_defs position_of_def)
  have b1: "snd (buy_stock ''t1'' ''u0'' ''googl'' 10 seeded)
      = Bought ''t1'' ''GOOGL'' 10 80 800 9200"
    by (simp add: seed_defs sql_defs method_defs)
  have same: "user_portfolios after_price_round
      = user_portfolios (fst (buy_stock ''t1'' ''u0'' ''googl'' 10 seeded))"
    by (simp add: trade_defs seed_defs sql_defs method_defs)
  have s1: "fetchone (\<lambda>s. s_symbol s = upper ''GOOGL'') (stocks after_price_round) = Some ?g1"
    by (simp add: trade_defs seed_defs sql_defs method_defs)
  have ids: "s_id ?g1 = s_id ?g0" by simp
  have pos: "position_of after_price_round ''u0'' (s_id ?g1) = Some ?pos"
    by (simp add: trade_defs seed_defs sql_defs method_defs)
  have b2: "snd (buy_stock ''t2'' ''u0'' ''GOOGL'' 10 after_price_round)
      = Bought ''t2'' ''GOOGL'' 10 85 850 8350"
    by (simp add: trade_defs seed_defs sql_defs method_defs)
  note inst = buy_weighted_average
    [where symbol = "''GOOGL''" and db = after_price_round and stock = ?g1 and u = "''u0''"
       and pos = ?pos and t = "''t2''" and q = 10 and t' = "''t2''" and sy = "''GOOGL''"
       and q' = 10 and p = 85 and cost = 850 and nb = 8350
       and symbol_a = "''googl''" and db_a = seeded and stock_a = ?g0 and t_a = "''t1''"
       and q_a = 10 and t_a' = "''t1''" and sy_a = "''GOOGL''" and q_a' = 10 and p_a = 80
       and cost_a = 800 and nb_a = 9200 and db_b = after_price_round
       and symbol_b = "''GOOGL''" and stock_b = ?g1 and t_b = "''t2''" and q_b = 10
       and t_b' = "''t2''" and sy_b = "''GOOGL''" and q_b' = 10 and p_b = 85 and cost_b = 850
       and nb_b = 8350]
  from inst s0 fresh b1 same s1 ids pos b2 show ?thesis
    by (simp add: after_first_buy_def)
qed

section \<open>Loans\<close>

text \<open>
  Claim C7: for an existing user, \<^verbatim>\<open>take_loan\<close> with
  \<open>loan_amount + amount \<le> max_loan\<close> adds \<open>amount\<close> to the balance and to the loan
  amount and appends one loan row; with \<open>loan_amount + amount > max_loan\<close> it fails with
  the limit message and the database is the one it started from. The loan identifier
  drawn is one that no loan row carries.
\<close>

theorem take_loan_effect:
  assumes "fetchone (\<lambda>r. u_id r = user_id) (users db) = Some user"
      and "loan_id \<notin> set (map l_id (loans db))"
  shows "(u_loan_amount user + amount \<le> u_max_loan user \<longrightarrow>
            snd (take_loan loan_id user_id amount db)
              = Loan_taken loan_id amount (u_balance user + amount) (u_loan_amount user + amount) \<and>
            fetchone (\<lambda>r. u_id r = user_id) (users (fst (take_loan loan_id user_id amount db)))
              = Some (user\<lparr>u_balance := u_balance user + amount,
                            u_loan_amount := u_loan_amount user + amount\<rparr>) \<and>
            loans (fst (take_loan loan_id user_id amount db))
              = loans db @ [\<lparr>l_id = loan_id, l_user_id = user_id, l_amount = amount,
                              l_interest_rate = 5 / 100\<rparr>]) \<and>
         (u_loan_amount user + amount > u_max_loan user \<longrightarrow>
            take_loan loan_id user_id amount db
              = (db, Failed (Loan_amount_exceeds_maximum_limit (u_max_loan user))))"
proof -
  from assms(1) have id: "u_id user = user_id"
    using find_Some_member [of "\<lambda>r. u_id r = user_id" "users db" user]
    by (simp add: fetchone_def)
  have "find (\<lambda>r. u_id r = user_id)
          (map (\<lambda>r. if u_id r = user_id
                     then r\<lparr>u_balance := u_balance user + amount,
                            u_loan_amount := u_loan_amount user + amount\<rparr>
                     else r) (users db))
        = Some (user\<lparr>u_balance := u_balance user + amount,
                      u_loan_amount := u_loan_amount user + amount\<rparr>)"
    using assms(1) id
    by (intro find_update [where P = "\<lambda>r. u_id r = user_id"]) (simp_all add: fetchone_def)
  with assms show ?thesis
    by (simp add: take_loan_def insert_loan_def Let_def fetchone_def sql_update_def)
qed

theorem take_loan_effect_witness:
  "fetchone (\<lambda>r. u_id r = ''u0'') (users seeded)
     = Some \<lparr>u_id = ''u0'', u_username = ''user_1'', u_balance = 10000,
             u_loan_amount = 0, u_max_loan = 100000\<rparr> \<and>
   ''l1'' \<notin> set (map l_id (loans seeded)) \<and>
   snd (take_loan ''l1'' ''u0'' 2500 seeded) = Loan_taken ''l1'' 2500 12500 2500 \<and>
   take_loan ''l1'' ''u0'' 100001 seeded
     = (seeded, Failed (Loan_amount_exceeds_maximum_limit 100000))"
proof -
  have u: "fetchone (\<lambda>r. u_id r = ''u0'') (users seeded)
     = Some \<lparr>u_id = ''u0'', u_username = ''user_1'', u_balance = 10000,
             u_loan_amount = 0, u_max_loan = 100000\<rparr>"
    by (simp add: seed_defs sql_defs)
  have l: "''l1'' \<notin> set (map l_id (loans seeded))"
    by (simp add: seed_defs sql_defs)
  from take_loan_effect [OF u l, of 2500] take_loan_effect [OF u l, of 100001] u l
  show ?thesis by simp
qed


section \<open>Registration and the price clamp\<close>

text \<open>
  Claim C10: \<^verbatim>\<open>register_stock\<close> rejects no price. With a symbol that no stock
  carries it succeeds for every price, stores the price clamped to \<open>[1, 100]\<close> as the
  current price and appends it as the one history record of the stock; it fails exactly
  when the symbol, in upper case, is taken. The stock identifier drawn is one that no
  stock row carries.
\<close>

theorem register_stock_clamps:
  assumes "db_constraints db"
      and "stock_id \<notin> set (map s_id (stocks db))"
  shows "(upper symbol \<notin> set (map s_symbol (stocks db)) \<longrightarrow>
            snd (register_stock stock_id symbol name price quantity db)
              = Stock_registered stock_id \<and>
            fetchone (\<lambda>s. s_id s = stock_id)
                (stocks (fst (register_stock stock_id symbol name price quantity db)))
              = Some \<lparr>s_id = stock_id, s_symbol = upper symbol, s_name = name,
                      s_current_price = max 1 (min 100 price),
                      s_available_quantity = quantity\<rparr> \<and>
            filter (\<lambda>h. ph_stock_id h = stock_id)
                (stock_price_history (fst (register_stock stock_id symbol name price quantity db)))
              = [\<lparr>ph_stock_id = stock_id, ph_price = max 1 (min 100 price)\<rparr>]) \<and>
         (upper symbol \<in> set (map s_symbol (stocks db)) \<longrightarrow>
            register_stock stock_id symbol name price quantity db
              = (db, Failed Stock_symbol_already_exists))"
proof -
  from assms(2) have "find (\<lambda>s. s_id s = stock_id) (stocks db) = None"
    by (auto simp: find_None_iff)
  then have f: "find (\<lambda>s. s_id s = stock_id)
      (stocks db @ [\<lparr>s_id = stock_id, s_symbol = upper symbol, s_name = name,
                      s_current_price = max 1 (min 100 price),
                      s_available_quantity = quantity\<rparr>])
      = Some \<lparr>s_id = stock_id, s_symbol = upper symbol, s_name = name,
                      s_current_price = max 1 (min 100 price),
                      s_available_quantity = quantity\<rparr>"
    by (rule find_append_new) simp
  from assms have h: "filter (\<lambda>h. ph_stock_id h = stock_id) (stock_price_history db) = []"
    by (auto simp: filter_empty_conv db_constraints_def list_all_iff)
  from register_stock_outcome [of stock_id symbol name price quantity db] assms(2) f h
  show ?thesis by (auto simp: fetchone_def)
qed

theorem register_stock_clamps_witness:
  "db_constraints seeded \<and> ''x1'' \<notin> set (map s_id (stocks seeded)) \<and>
   upper ''xyz'' \<notin> set (map s_symbol (stocks seeded)) \<and>
   upper ''aapl'' \<in> set (map s_symbol (stocks seeded)) \<and>
   snd (register_stock ''x1'' ''xyz'' ''XYZ Corp.'' 250 100 seeded) = Stock_registered ''x1'' \<and>
   map_option s_current_price (fetchone (\<lambda>s. s_id s = ''x1'')
       (stocks (fst (register_stock ''x1'' ''xyz'' ''XYZ Corp.'' 250 100 seeded)))) = Some 100 \<and>
   filter (\<lambda>h. ph_stock_id h = ''x1'')
       (stock_price_history (fst (register_stock ''x1'' ''xyz'' ''XYZ Corp.'' 250 100 seeded)))
     = [\<lparr>ph_stock_id = ''x1'', ph_price = 100\<rparr>] \<and>
   register_stock ''x1'' ''aapl'' ''Apple'' 50 100 seeded
     = (seeded, Failed Stock_symbol_already_exists)"
proof -
  have c: "db_constraints seeded"
    by (simp add: db_constraints_def seed_defs sql_defs)
  have i: "''x1'' \<notin> set (map s_id (stocks seeded))"
    by (simp add: seed_defs sql_defs)
  have s1: "upper ''xyz'' \<notin> set (map s_symbol (stocks seeded))"
    by (simp add: seed_defs sql_defs upper_def upper_char_def)
  have s2: "upper ''aapl'' \<in> set (map s_symbol (stocks seeded))"
    by (simp add: seed_defs sql_defs upper_def upper_char_def)
  from register_stock_clamps [OF c i, of "''xyz''" "''XYZ Corp.''" 250 100]
       register_stock_clamps [OF c i, of "''aapl''" "''Apple''" 50 100] c i s1 s2
  show ?thesis by simp
qed

section \<open>Where the methods leave the specification\<close>

text \<open>
  Claim C2: no committed buy, sell or loan leaves a user's balance negative, for every
  quantity or amount that the method accepts. The methods test no sign. On the seeded
  database user \<open>u0\<close> buys one unit of GOOGL at 80 and then sells \<open>-1000\<close> units:
  the position of 1 is not below \<open>-1000\<close>, the sale commits, and the balance is
  \<open>9920 - 80000 = -70080\<close>. A loan of \<open>-10001\<close> commits as well and leaves \<open>-1\<close>.
\<close>

theorem sell_negative_quantity_overdraws:
  "snd (buy_stock ''t1'' ''u0'' ''GOOGL'' 1 seeded) = Bought ''t1'' ''GOOGL'' 1 80 80 9920 \<and>
   snd (sell_stock ''t2'' ''u0'' ''GOOGL'' (- 1000)
          (fst (buy_stock ''t1'' ''u0'' ''GOOGL'' 1 seeded)))
     = Sold ''t2'' ''GOOGL'' (- 1000) 80 (- 80000) (- 70080) \<and>
   map_option u_balance
     (fetchone (\<lambda>u. u_id u = ''u0'')
        (users (fst (sell_stock ''t2'' ''u0'' ''GOOGL'' (- 1000)
                       (fst (buy_stock ''t1'' ''u0'' ''GOOGL'' 1 seeded))))))
     = Some (- 70080) \<and>
   map_option u_balance
     (fetchone (\<lambda>u. u_id u = ''u0'') (users (fst (take_loan ''l1'' ''u0'' (- 10001) seeded))))
     = Some (- 1)"
  by (simp add: seed_defs sql_defs method_defs)

text \<open>
  Claim C4: after registration, the initial minting included, and after every price
  round the stored price lies in \<open>[1, 100]\<close>. \<^verbatim>\<open>setup_initial_data\<close> mints AAPL at
  150 and records 150 in the price history; it has no clamp, where \<^verbatim>\<open>register_stock\<close>
  and \<^verbatim>\<open>update_stock_prices\<close> have one.
\<close>

theorem seed_price_above_100:
  "setup_initial_data seed_stock_id seed_user_id init_database = Inr seeded \<and>
   map_option s_current_price (fetchone (\<lambda>s. s_symbol s = ''AAPL'') (stocks seeded))
     = Some 150 \<and>
   map ph_price (filter (\<lambda>h. ph_stock_id h = ''s0'') (stock_price_history seeded)) = [150]"
  by (simp add: seed_defs sql_defs)

text \<open>
  Claim C5: a buy or sell with a quantity \<open>\<le> 0\<close> and a loan with an amount \<open>\<le> 0\<close> are
  rejected and change nothing. On the seeded database a buy of \<open>-5\<close> units commits,
  credits 400 and raises the units on offer from 800 to 805; a buy of \<open>0\<close> units
  commits and appends a transaction; a loan of \<open>-20000\<close> commits, appends a loan row
  and leaves the balance at \<open>-10000\<close>.
\<close>

theorem nonpositive_arguments_commit:
  "snd (buy_stock ''t1'' ''u0'' ''GOOGL'' (- 5) seeded)
     = Bought ''t1'' ''GOOGL'' (- 5) 80 (- 400) 10400 \<and>
   available_units (fst (buy_stock ''t1'' ''u0'' ''GOOGL'' (- 5) seeded)) ''s1'' = 805 \<and>
   snd (buy_stock ''t1'' ''u0'' ''GOOGL'' 0 seeded) = Bought ''t1'' ''GOOGL'' 0 80 0 10000 \<and>
   length (transactions (fst (buy_stock ''t1'' ''u0'' ''GOOGL'' 0 seeded))) = 1 \<and>
   snd (take_loan ''l1'' ''u0'' (- 20000) seeded)
     = Loan_taken ''l1'' (- 20000) (- 10000) (- 20000) \<and>
   length (loans (fst (take_loan ''l1'' ''u0'' (- 20000) seeded))) = 1"
  by (simp add: seed_defs sql_defs method_defs available_units_def)

text \<open>
  Claim C6: a sell for a stock that exists and a user that does not is answered with
  "not found". \<^verbatim>\<open>sell_stock\<close> looks the position up first and never tests the user row:
  for the unknown user \<open>nobody\<close> it answers "Insufficient stocks to sell", where
  \<^verbatim>\<open>buy_stock\<close> on the same arguments answers "User not found".
\<close>

theorem sell_unknown_user_reports_position:
  "fetchone (\<lambda>u. u_id u = ''nobody'') (users seeded) = None \<and>
   sell_stock ''t1'' ''nobody'' ''GOOGL'' 1 seeded = (seeded, Failed Insufficient_stocks_to_sell) \<and>
   buy_stock ''t1'' ''nobody'' ''GOOGL'' 1 seeded = (seeded, Failed User_not_found)"
  by (simp add: seed_defs sql_defs method_defs)

text \<open>
  Claim C8: the stock report gives each stock's number of transactions and its bought
  and sold volume. The query counts and sums over the join of the stock's transactions
  with its price history, so each transaction is counted once per history row. In
  \<open>traded\<close> GOOGL has one transaction, a buy of 3 units, and two history rows; the
  report says 2 transactions and 6 units bought.
\<close>

theorem report_counts_joined_rows:
  "length (filter (\<lambda>t. t_stock_id t = ''s1'') (transactions traded)) = 1 \<and>
   sum_list (map t_quantity
     (filter (\<lambda>t. t_stock_id t = ''s1'' \<and> t_transaction_type t = BUY) (transactions traded))) = 3 \<and>
   length (filter (\<lambda>h. ph_stock_id h = ''s1'') (stock_price_history traded)) = 2 \<and>
   map r_transaction_count (filter (\<lambda>r. r_symbol r = ''GOOGL'') (get_stock_report traded)) = [2] \<and>
   map r_total_bought (filter (\<lambda>r. r_symbol r = ''GOOGL'') (get_stock_report traded)) = [6]"
  by (simp add: traded_def update_stock_prices_def seed_defs sql_defs method_defs report_defs)

end
